theory Spec2Isabelle
  imports Complex_Main
begin

section \<open>CoRT fine-tuning driver (run\_finetuning.py)\<close>

text \<open>
  A shallow embedding of the fine-tuning driver: the fold splitter
  (\<open>splits_into_fold\<close>), the class-weight rearranger
  (\<open>class_weight_map_fn\<close>) and the custom training loop (\<open>run_train\<close>).
  Tensor values are exact reals (rounding is not modelled); integer label tensors carry
  their shape. Every \<open>raise\<close> of the source is an \<open>Inl\<close> result.
\<close>

subsection \<open>Errors and Python values\<close>

datatype error =
    ValueError string
  | ClassWeightKeysError "(int \<times> real) list"
  | ZeroDivisionError
  | KeyError string
  | IndexError
  | UnpackError
  | InvalidArgumentError
  | GradientMismatchError
  | ExternalError string

text \<open>Sequencing of fallible steps: the first raised error aborts the rest.\<close>

definition bind_err :: "(error + 'a) \<Rightarrow> ('a \<Rightarrow> error + 'b) \<Rightarrow> error + 'b" where
  "bind_err m f = (case m of Inl e \<Rightarrow> Inl e | Inr x \<Rightarrow> f x)"

primrec foldM :: "('s \<Rightarrow> 'a \<Rightarrow> error + 's) \<Rightarrow> 's \<Rightarrow> 'a list \<Rightarrow> error + 's" where
  "foldM f s [] = Inr s"
| "foldM f s (x # xs) = bind_err (f s x) (\<lambda>s'. foldM f s' xs)"

primrec mapM :: "('a \<Rightarrow> error + 'b) \<Rightarrow> 'a list \<Rightarrow> error + 'b list" where
  "mapM f [] = Inr []"
| "mapM f (x # xs) = bind_err (f x) (\<lambda>y. bind_err (mapM f xs) (\<lambda>ys. Inr (y # ys)))"

text \<open>Python's \<open>str\<close> of an integer, as \<open>'{}'.format\<close> prints it.\<close>

definition digit_char :: "nat \<Rightarrow> char" where
  "digit_char d = ''0123456789'' ! d"

function str_nat :: "nat \<Rightarrow> string" where
  "str_nat n = (if n < 10 then [digit_char n] else str_nat (n div 10) @ [digit_char (n mod 10)])"
  by pat_completeness auto
termination
  by (relation "measure (\<lambda>n. n)") auto

declare str_nat.simps [simp del]

definition str_int :: "int \<Rightarrow> string" where
  "str_int i = (if i < 0 then CHR ''-'' # str_nat (nat (- i)) else str_nat (nat i))"

text \<open>
  A dataset element is a (nested) tuple of tensors; the tensors themselves are opaque
  to the loop.
\<close>

datatype 'x pyval = Leaf 'x | Tuple "'x pyval list"

text \<open>A tensor: its static shape and its elements in row-major order.\<close>

datatype 'a tensor = Tensor (shape: "nat list") (flat: "'a list")

subsection \<open>Configuration\<close>

record config =
  num_k_fold :: int
  current_fold :: int
  seed :: int
  batch_size :: nat
  gradient_accumulation_steps :: nat
  dynamic_datagen :: bool
  num_sections :: nat
  num_labels :: nat
  include_sections :: bool
  distribute :: bool
  skip_early_eval :: bool
  initial_epoch :: nat
  epochs :: nat

subsection \<open>The model wrapper's input adapter\<close>

text \<open>Unpacking \<open>(_, x) = v\<close>: \<open>v\<close> must be a pair.\<close>

definition unpack2 :: "'x pyval \<Rightarrow> error + ('x pyval \<times> 'x pyval)" where
  "unpack2 v = (case v of Tuple [a, b] \<Rightarrow> Inr (a, b) | _ \<Rightarrow> Inl UnpackError)"

definition wrap_inputs :: "config \<Rightarrow> 'x pyval list \<Rightarrow> error + 'x pyval list" where
  "wrap_inputs cfg inputs =
     (if include_sections cfg then Inr inputs
      else if length inputs = 3 then
        bind_err (unpack2 (inputs ! 1)) (\<lambda>(_, labels).
        bind_err (unpack2 (inputs ! 2)) (\<lambda>(_, cw).
        Inr [inputs ! 0, labels, cw]))
      else if length inputs = 2 then
        bind_err (unpack2 (inputs ! 1)) (\<lambda>(_, labels).
        Inr [inputs ! 0, labels])
      else Inl (ValueError (''Number of inputs must be 2 or 3. Received ''
                  @ str_nat (length inputs) @ '' instead'')))"

subsection \<open>Fold splitter\<close>

text \<open>numpy fancy indexing \<open>xs[idxs]\<close>; an index past the end raises.\<close>

definition np_take :: "'a list \<Rightarrow> nat list \<Rightarrow> error + 'a list" where
  "np_take xs idxs =
     (if list_all (\<lambda>i. i < length xs) idxs then Inr (map (\<lambda>i. xs ! i) idxs) else Inl IndexError)"

text \<open>\<open>np.unique\<close>: the sorted distinct values.\<close>

definition np_unique :: "int list \<Rightarrow> int list" where
  "np_unique ys = sort (remdups ys)"

text \<open>
  \<open>compute_class_weight('balanced', classes=np.unique(y), y=y)\<close> of scikit-learn:
  one weight per distinct class, in sorted class order,
  \<open>n_samples / (n_classes * count)\<close>.
\<close>

definition balanced_class_weight :: "int list \<Rightarrow> real list" where
  "balanced_class_weight y =
     map (\<lambda>c. real (length y) / (real (length (np_unique y)) * real (count_list y c)))
       (np_unique y)"

text \<open>\<open>dict(enumerate(ws))\<close>: a dict is an association list in insertion order.\<close>

definition dict_enumerate :: "'v list \<Rightarrow> (int \<times> 'v) list" where
  "dict_enumerate ws = zip (map int [0..<length ws]) ws"

definition dict_get :: "(int \<times> 'v) list \<Rightarrow> int \<Rightarrow> error + 'v" where
  "dict_get d k = (case map_of d k of None \<Rightarrow> Inl (KeyError (str_int k)) | Some v \<Rightarrow> Inr v)"

text \<open>
  The dataset handed on: a \<open>CortDataGenerator\<close> (its constructor arguments) when
  \<open>dynamic_datagen\<close> is set, the arrays \<open>(input_ids, (sections, labels))\<close> otherwise.
\<close>

datatype ('tok, 'a) fold_data =
    CortDataGenerator config 'tok "'a list" "int list" "int list" nat bool
  | Arrays "'a list" "int list" "int list"

fun data_input_ids :: "('tok, 'a) fold_data \<Rightarrow> 'a list" where
  "data_input_ids (CortDataGenerator c t ids secs labs n sh) = ids"
| "data_input_ids (Arrays ids secs labs) = ids"

fun data_sections :: "('tok, 'a) fold_data \<Rightarrow> int list" where
  "data_sections (CortDataGenerator c t ids secs labs n sh) = secs"
| "data_sections (Arrays ids secs labs) = secs"

fun data_labels :: "('tok, 'a) fold_data \<Rightarrow> int list" where
  "data_labels (CortDataGenerator c t ids secs labs n sh) = labs"
| "data_labels (Arrays ids secs labs) = labs"

record ('tok, 'a) FoldedDatasetOutput =
  training :: "('tok, 'a) fold_data"
  validation :: "('tok, 'a) fold_data"
  steps_per_epoch :: nat
  sections_cw :: "(int \<times> real) list"
  labels_cw :: "(int \<times> real) list"

text \<open>Python's \<open>a // b\<close> on non-negative integers.\<close>

definition floordiv :: "nat \<Rightarrow> nat \<Rightarrow> error + nat" where
  "floordiv a b = (if b = 0 then Inl ZeroDivisionError else Inr (a div b))"

text \<open>\<open>int(math.ceil(a / b))\<close> on non-negative integers.\<close>

definition ceildiv :: "nat \<Rightarrow> nat \<Rightarrow> error + nat" where
  "ceildiv a b = (if b = 0 then Inl ZeroDivisionError else Inr ((a + b - 1) div b))"

text \<open>
  The logging loop \<open>for i in range(n): ... cw[i]\<close>: the log lines are console
  output, the dict lookups they make can raise.
\<close>

definition log_class_weights :: "nat \<Rightarrow> (int \<times> real) list \<Rightarrow> error + unit" where
  "log_class_weights n cw = bind_err (mapM (\<lambda>i. dict_get cw (int i)) [0..<n]) (\<lambda>_. Inr ())"

text \<open>The body of the loop over the folds, at the selected fold.\<close>

definition selected_fold ::
  "config \<Rightarrow> 'tok \<Rightarrow> 'a list \<Rightarrow> int list \<Rightarrow> int list \<Rightarrow> nat list \<Rightarrow> nat list
    \<Rightarrow> error + ('tok, 'a) FoldedDatasetOutput" where
  "selected_fold cfg tokenizer input_ids sections labels train_indices valid_indices =
     bind_err (np_take input_ids train_indices) (\<lambda>train_input_ids.
     bind_err (np_take sections train_indices) (\<lambda>train_sections.
     bind_err (np_take labels train_indices) (\<lambda>train_labels.
     bind_err (np_take input_ids valid_indices) (\<lambda>valid_input_ids.
     bind_err (np_take sections valid_indices) (\<lambda>valid_sections.
     bind_err (np_take labels valid_indices) (\<lambda>valid_labels.
     bind_err (floordiv (length train_input_ids) (batch_size cfg)) (\<lambda>q.
     bind_err (floordiv q (gradient_accumulation_steps cfg)) (\<lambda>n_steps.
     let sections_cw = dict_enumerate (balanced_class_weight train_sections);
         labels_cw = dict_enumerate (balanced_class_weight train_labels)
     in
     bind_err
       (if dynamic_datagen cfg then
          bind_err (floordiv (length train_input_ids) (batch_size cfg)) (\<lambda>train_steps.
          bind_err (ceildiv (length valid_input_ids) (batch_size cfg)) (\<lambda>valid_steps.
          Inr (CortDataGenerator cfg tokenizer train_input_ids train_sections train_labels
                 train_steps True,
               CortDataGenerator cfg tokenizer valid_input_ids valid_sections valid_labels
                 valid_steps False)))
        else Inr (Arrays train_input_ids train_sections train_labels,
                  Arrays valid_input_ids valid_sections valid_labels))
       (\<lambda>(training, validation).
     bind_err (log_class_weights (num_sections cfg) sections_cw) (\<lambda>_.
     bind_err (log_class_weights (num_labels cfg) labels_cw) (\<lambda>_.
     Inr \<lparr>training = training, validation = validation, steps_per_epoch = n_steps,
          sections_cw = sections_cw, labels_cw = labels_cw\<rparr>)))))))))))"

text \<open>
  The loop \<open>for index, (train_indices, valid_indices) in enumerate(fold.split(...))\<close>:
  folds other than \<open>current_fold\<close> are skipped; running off the end raises.
\<close>

fun select_fold ::
  "config \<Rightarrow> 'tok \<Rightarrow> 'a list \<Rightarrow> int list \<Rightarrow> int list \<Rightarrow> (nat \<times> nat list \<times> nat list) list
    \<Rightarrow> error + ('tok, 'a) FoldedDatasetOutput" where
  "select_fold cfg tokenizer input_ids sections labels [] =
     Inl (ValueError (''Invalid current fold number: '' @ str_int (current_fold cfg)
            @ '' out of total '' @ str_int (num_k_fold cfg) @ '' folds''))"
| "select_fold cfg tokenizer input_ids sections labels ((index, train_indices, valid_indices) # rest) =
     (if int index \<noteq> current_fold cfg
      then select_fold cfg tokenizer input_ids sections labels rest
      else selected_fold cfg tokenizer input_ids sections labels train_indices valid_indices)"

text \<open>
  \<open>kfold_split n_splits seed X y\<close> stands for scikit-learn's
  \<open>StratifiedKFold(n_splits, shuffle=True, random_state=seed).split(X, y)\<close>: the index
  pairs it yields, or the error it raises.
\<close>

definition splits_into_fold ::
  "config \<Rightarrow> 'tok \<Rightarrow> (int \<Rightarrow> int \<Rightarrow> 'a list \<Rightarrow> int list \<Rightarrow> error + (nat list \<times> nat list) list)
    \<Rightarrow> 'a list \<Rightarrow> int list \<times> int list \<Rightarrow> error + ('tok, 'a) FoldedDatasetOutput" where
  "splits_into_fold cfg tokenizer kfold_split input_ids sl =
     (case sl of (sections, labels) \<Rightarrow>
        bind_err (kfold_split (num_k_fold cfg) (seed cfg) input_ids labels) (\<lambda>folds.
        select_fold cfg tokenizer input_ids sections labels (enumerate 0 folds)))"

subsection \<open>Class-weight rearranger\<close>

definition calc_cw_tensor :: "(int \<times> real) list \<Rightarrow> error + real tensor" where
  "calc_cw_tensor cw =
     (let class_ids = sort (map fst cw);
          expected_class_ids = map int [0..<length class_ids]
      in if class_ids \<noteq> expected_class_ids then Inl (ClassWeightKeysError cw)
         else bind_err (mapM (dict_get cw) class_ids) (\<lambda>ws. Inr (Tensor [length ws] ws)))"

text \<open>\<open>tf.argmax\<close> of one row: the index of the first maximum.\<close>

definition list_max :: "int list \<Rightarrow> int" where
  "list_max xs = (case xs of [] \<Rightarrow> 0 | x # r \<Rightarrow> fold max r x)"

fun index_of :: "'a \<Rightarrow> 'a list \<Rightarrow> nat" where
  "index_of v [] = 0"
| "index_of v (x # xs) = (if x = v then 0 else Suc (index_of v xs))"

definition argmax :: "int list \<Rightarrow> nat" where
  "argmax xs = index_of (list_max xs) xs"

text \<open>The rows of a rank-2 tensor.\<close>

definition tensor_rows :: "'a tensor \<Rightarrow> 'a list list" where
  "tensor_rows t =
     map (\<lambda>i. take (shape t ! 1) (drop (i * (shape t ! 1)) (flat t))) [0..<shape t ! 0]"

definition tf_argmax_axis1 :: "int tensor \<Rightarrow> int tensor" where
  "tf_argmax_axis1 t = Tensor [shape t ! 0] (map (\<lambda>r. int (argmax r)) (tensor_rows t))"

text \<open>\<open>tf.reshape(t, (-1,))\<close>.\<close>

definition tf_reshape_flat :: "'a tensor \<Rightarrow> 'a tensor" where
  "tf_reshape_flat t = Tensor [length (flat t)] (flat t)"

text \<open>
  \<open>tf.gather\<close> from a rank-1 tensor. The rearranger runs inside the input pipeline, on
  the host, where an index outside \<open>[0, n)\<close> raises.
\<close>

definition tf_gather :: "real tensor \<Rightarrow> int tensor \<Rightarrow> error + real tensor" where
  "tf_gather params indices =
     (if list_all (\<lambda>i. 0 \<le> i \<and> i < int (length (flat params))) (flat indices)
      then Inr (Tensor (shape indices) (map (\<lambda>i. flat params ! nat i) (flat indices)))
      else Inl InvalidArgumentError)"

text \<open>Label tensors are \<open>int32\<close>, so the cast to \<open>int32\<close> leaves them as they are.\<close>

definition rearrange_cw :: "int tensor \<Rightarrow> real tensor \<Rightarrow> error + real tensor" where
  "rearrange_cw labels cw_tensor =
     (let y_classes =
        (if length (shape labels) = 2 then
           (if shape labels ! 1 > 1 then tf_argmax_axis1 labels else tf_reshape_flat labels)
         else tf_reshape_flat labels)
      in tf_gather cw_tensor y_classes)"

definition map_fn ::
  "real tensor \<Rightarrow> real tensor \<Rightarrow> 'i \<Rightarrow> int tensor \<times> int tensor
    \<Rightarrow> error + ('i \<times> (int tensor \<times> int tensor) \<times> (real tensor \<times> real tensor))" where
  "map_fn sections_cw_tensor labels_cw_tensor input_ids sl =
     (case sl of (sections, labels) \<Rightarrow>
        bind_err (rearrange_cw sections sections_cw_tensor) (\<lambda>sec_cw.
        bind_err (rearrange_cw labels labels_cw_tensor) (\<lambda>cw.
        Inr (input_ids, (sections, labels), (sec_cw, cw)))))"

definition class_weight_map_fn ::
  "(int \<times> real) list \<Rightarrow> (int \<times> real) list
    \<Rightarrow> error + ('i \<Rightarrow> int tensor \<times> int tensor
          \<Rightarrow> error + ('i \<times> (int tensor \<times> int tensor) \<times> (real tensor \<times> real tensor)))" where
  "class_weight_map_fn scw lcw =
     bind_err (calc_cw_tensor scw) (\<lambda>sections_cw_tensor.
     bind_err (calc_cw_tensor lcw) (\<lambda>labels_cw_tensor.
     Inr (map_fn sections_cw_tensor labels_cw_tensor)))"

text \<open>The two encodings of a batch of class ids: one-hot rows of width \<open>C\<close>, and indices.\<close>

definition one_hot :: "nat \<Rightarrow> int \<Rightarrow> int list" where
  "one_hot C y = map (\<lambda>j. if int j = y then 1 else 0) [0..<C]"

definition one_hot_batch :: "nat \<Rightarrow> int list \<Rightarrow> int tensor" where
  "one_hot_batch C ys = Tensor [length ys, C] (concat (map (one_hot C) ys))"

definition index_batch :: "int list \<Rightarrow> int tensor" where
  "index_batch ys = Tensor [length ys] ys"

text \<open>
  The rearranger as the specification words it: a two-dimensional batch of width
  greater than 1 is reduced to class indices by arg-max over each row, any other batch
  is read as class indices.
\<close>

definition spec_class_indices :: "int tensor \<Rightarrow> int list" where
  "spec_class_indices labels =
     (if length (shape labels) = 2 \<and> 1 < shape labels ! 1
      then map (\<lambda>row. int (argmax row)) (tensor_rows labels)
      else flat labels)"

subsection \<open>Tensor arithmetic and cross-replica reduction\<close>

type_synonym outputs = "(string \<times> real tensor) list"
type_synonym grads = "real tensor option list"
type_synonym logs = "(string \<times> real) list"

text \<open>Element-wise sum of two tensors of one shape; another shape raises.\<close>

definition tensor_add :: "real tensor \<Rightarrow> real tensor \<Rightarrow> error + real tensor" where
  "tensor_add a b =
     (if shape a = shape b \<and> length (flat a) = length (flat b)
      then Inr (Tensor (shape a) (map (\<lambda>(x, y). x + y) (zip (flat a) (flat b))))
      else Inl InvalidArgumentError)"

definition tensor_div :: "real tensor \<Rightarrow> real \<Rightarrow> real tensor" where
  "tensor_div t c = Tensor (shape t) (map (\<lambda>x. x / c) (flat t))"

definition zeros_like :: "real tensor \<Rightarrow> real tensor" where
  "zeros_like t = Tensor (shape t) (map (\<lambda>_. 0) (flat t))"

text \<open>
  \<open>tf.clip_by_global_norm\<close>: every tensor is scaled by
  \<open>clip_norm / max(global_norm, clip_norm)\<close>, where the global norm is the square
  root of the sum of all squared elements; \<open>None\<close> entries stay as they are.
\<close>

definition global_norm :: "grads \<Rightarrow> real" where
  "global_norm t_list =
     sqrt (sum_list (map (\<lambda>t. case t of None \<Rightarrow> 0
                                     | Some g \<Rightarrow> sum_list (map (\<lambda>x. x * x) (flat g))) t_list))"

definition clip_by_global_norm :: "grads \<Rightarrow> real \<Rightarrow> grads" where
  "clip_by_global_norm t_list clip_norm =
     map (map_option (\<lambda>t. Tensor (shape t)
            (map (\<lambda>x. x * clip_norm / max (global_norm t_list) clip_norm) (flat t)))) t_list"

datatype ReduceOp = ReduceOp_SUM | ReduceOp_MEAN

text \<open>
  \<open>strategy.reduce(op, value, axis=None)\<close> of TensorFlow on a per-replica value (one
  tensor per replica, at least one replica): the element-wise sum over the replicas,
  divided by their number for \<open>ReduceOp.MEAN\<close>.
\<close>

definition strategy_reduce :: "ReduceOp \<Rightarrow> real tensor list \<Rightarrow> error + real tensor" where
  "strategy_reduce reduce_op per_replica =
     (case per_replica of
        [] \<Rightarrow> Inl InvalidArgumentError
      | v # vs \<Rightarrow>
          bind_err (foldM tensor_add v vs) (\<lambda>total.
          Inr (case reduce_op of
                 ReduceOp_SUM \<Rightarrow> total
               | ReduceOp_MEAN \<Rightarrow> tensor_div total (real (length per_replica)))))"

definition strategy_reduce_mean ::
  "real tensor list \<Rightarrow> (string \<times> real tensor list) list \<Rightarrow> error + (real tensor \<times> outputs)" where
  "strategy_reduce_mean unscaled_loss outs =
     bind_err (mapM (\<lambda>(key, v). bind_err (strategy_reduce ReduceOp_MEAN v) (\<lambda>r. Inr (key, r))) outs)
       (\<lambda>features.
     bind_err (strategy_reduce ReduceOp_MEAN unscaled_loss) (\<lambda>loss.
     Inr (loss, features)))"

subsection \<open>Gradient accumulator\<close>

text \<open>
  Modelled from the spec: the class \<open>GradientAccumulator\<close> of \<open>cort.optimization\<close>
  is not among the sources. Its state is the list of per-parameter running sums (empty
  before the first call). Calling it adds each incoming gradient into its running sum,
  tolerating \<open>None\<close> entries position by position; a gradient sequence of another
  length or shape is a fatal error; \<open>reset\<close> zeroes all running sums;
  \<open>accumulated_gradients\<close> exposes the sums.
\<close>

definition accumulate_one :: "real tensor option \<Rightarrow> real tensor option \<Rightarrow> error + real tensor option" where
  "accumulate_one running g =
     (case g of
        None \<Rightarrow> Inr running
      | Some t \<Rightarrow>
          (case running of
             None \<Rightarrow> Inr (Some t)
           | Some r \<Rightarrow> bind_err (tensor_add r t) (\<lambda>r'. Inr (Some r'))))"

definition accumulator_call :: "grads \<Rightarrow> grads \<Rightarrow> error + grads" where
  "accumulator_call acc gradients =
     (let running = (if acc = [] then map (map_option zeros_like) gradients else acc)
      in if length running \<noteq> length gradients then Inl GradientMismatchError
         else mapM (\<lambda>(r, g). accumulate_one r g) (zip running gradients))"

definition accumulator_reset :: "grads \<Rightarrow> grads" where
  "accumulator_reset acc = map (map_option zeros_like) acc"

definition accumulated_gradients :: "grads \<Rightarrow> grads" where
  "accumulated_gradients acc = acc"

subsection \<open>Metric registry\<close>

text \<open>
  The Keras metric objects are collaborators. A metric is its kind together with the
  arguments of the \<open>update_state\<close> calls since its last \<open>reset_state\<close>; what
  \<open>result()\<close> computes from them is a parameter of the loop.
\<close>

datatype metric_kind = Mean | CategoricalAccuracy | Precision | Recall | F1Score nat string

datatype metric_update = Values "real tensor" | TruePred "real tensor" "real tensor"

type_synonym metric = "metric_kind \<times> metric_update list"

definition create_metric_map :: "config \<Rightarrow> (string \<times> metric) list" where
  "create_metric_map cfg =
     [(''total_loss'', (Mean, [])),
      (''contrastive_loss'', (Mean, [])),
      (''cross_entropy_loss'', (Mean, [])),
      (''accuracy'', (CategoricalAccuracy, [])),
      (''precision'', (Precision, [])),
      (''recall'', (Recall, [])),
      (''micro_f1_score'', (F1Score (num_labels cfg) ''micro'', [])),
      (''macro_f1_score'', (F1Score (num_labels cfg) ''macro'', []))]
     @ (if include_sections cfg then
          [(''section_contrastive_loss'', (Mean, [])),
           (''section_cross_entropy_loss'', (Mean, [])),
           (''section_accuracy'', (CategoricalAccuracy, [])),
           (''section_precision'', (Precision, [])),
           (''section_recall'', (Recall, [])),
           (''section_micro_f1_score'', (F1Score (num_sections cfg) ''micro'', [])),
           (''section_macro_f1_score'', (F1Score (num_sections cfg) ''macro'', []))]
        else [])"

text \<open>\<open>d[key]\<close> on a dict with string keys.\<close>

definition lookup :: "(string \<times> 'v) list \<Rightarrow> string \<Rightarrow> error + 'v" where
  "lookup d key = (case map_of d key of None \<Rightarrow> Inl (KeyError key) | Some v \<Rightarrow> Inr v)"

text \<open>
  \<open>dicts[key].update_state(arg)\<close>: the metric is looked up first, then the argument is
  evaluated, then the metric's state takes the update.
\<close>

definition update_state ::
  "(string \<times> metric) list \<Rightarrow> string \<Rightarrow> (error + metric_update) \<Rightarrow> error + (string \<times> metric) list" where
  "update_state dicts key arg =
     bind_err (lookup dicts key) (\<lambda>_.
     bind_err arg (\<lambda>u.
     Inr (map (\<lambda>(k, (kind, us)). if k = key then (k, (kind, us @ [u])) else (k, (kind, us))) dicts)))"

definition true_pred :: "outputs \<Rightarrow> string \<Rightarrow> string \<Rightarrow> error + metric_update" where
  "true_pred d y_true y_pred =
     bind_err (lookup d y_true) (\<lambda>t. bind_err (lookup d y_pred) (\<lambda>p. Inr (TruePred t p)))"

definition values_of :: "outputs \<Rightarrow> string \<Rightarrow> error + metric_update" where
  "values_of d key = bind_err (lookup d key) (\<lambda>v. Inr (Values v))"

definition confusion_keys :: "string list" where
  "confusion_keys = [''accuracy'', ''precision'', ''recall'', ''micro_f1_score'', ''macro_f1_score'']"

definition metric_fn ::
  "config \<Rightarrow> (string \<times> metric) list \<Rightarrow> outputs \<Rightarrow> error + (string \<times> metric) list" where
  "metric_fn cfg dicts d =
     bind_err (update_state dicts ''contrastive_loss'' (values_of d ''contrastive_loss'')) (\<lambda>dicts.
     bind_err (update_state dicts ''cross_entropy_loss'' (values_of d ''cross_entropy_loss'')) (\<lambda>dicts.
     bind_err (foldM (\<lambda>dicts key. update_state dicts key (true_pred d ''ohe_labels'' ''probs''))
                 dicts confusion_keys) (\<lambda>dicts.
     if include_sections cfg then
       bind_err (update_state dicts ''section_contrastive_loss''
                   (values_of d ''section_contrastive_loss'')) (\<lambda>dicts.
       bind_err (update_state dicts ''section_cross_entropy_loss''
                   (values_of d ''section_cross_entropy_loss'')) (\<lambda>dicts.
       foldM (\<lambda>dicts key. update_state dicts key (true_pred d ''section_ohe_labels'' ''section_probs''))
         dicts (map (\<lambda>key. ''section_'' @ key) confusion_keys)))
     else Inr dicts)))"

definition create_metric_logs ::
  "(metric_kind \<Rightarrow> metric_update list \<Rightarrow> real) \<Rightarrow> (string \<times> metric) list \<Rightarrow> logs" where
  "create_metric_logs result dicts = map (\<lambda>(k, (kind, us)). (k, result kind us)) dicts"

definition reset_state :: "(string \<times> metric) list \<Rightarrow> (string \<times> metric) list" where
  "reset_state dicts = map (\<lambda>(k, (kind, us)). (k, (kind, []))) dicts"

text \<open>\<open>d.update(e)\<close>: a present key keeps its place and takes the new value, a new key is appended.\<close>

fun dict_set :: "(string \<times> 'v) list \<Rightarrow> string \<Rightarrow> 'v \<Rightarrow> (string \<times> 'v) list" where
  "dict_set [] k v = [(k, v)]"
| "dict_set ((k', v') # d) k v = (if k' = k then (k, v) # d else (k', v') # dict_set d k v)"

definition dict_update :: "(string \<times> 'v) list \<Rightarrow> (string \<times> 'v) list \<Rightarrow> (string \<times> 'v) list" where
  "dict_update d e = foldl (\<lambda>d (k, v). dict_set d k v) d e"

subsection \<open>The training loop\<close>

text \<open>
  What the loop does to its collaborators, in order: the calls of the train and test
  step functions (with the loop counters at the call, the batch, and the loss and
  outputs returned), the experiment tracker's \<open>wandb.log\<close>, the Keras callbacks, and
  the console.
\<close>

datatype 'x event =
    CallTrainFn nat nat nat bool "'x pyval list" "real tensor" outputs
  | CallTestFn nat "'x pyval list" "real tensor" outputs
  | WandbLog logs nat
  | OnTrainBegin
  | OnTrainEnd "logs option"
  | OnEpochBegin nat
  | OnEpochEnd nat logs
  | OnTrainBatchBegin nat
  | OnTrainBatchEnd nat logs
  | OnTestBegin
  | OnTestBatchBegin nat
  | OnTestBatchEnd nat logs
  | OnTestEnd logs
  | Print string
  | LoggingInfo string
  | ProgbarUpdate nat logs bool

text \<open>The TensorFlow variables: model weights, optimizer state, gradient accumulator.\<close>

record ('w, 'o) tf_vars =
  weights :: 'w
  opt_state :: 'o
  accumulator :: grads

text \<open>
  The collaborators of the loop: the model (forward pass and the gradients the tape
  gives for it), the optimizer, \<open>strategy.run\<close>, the learning-rate schedule and the
  metrics' \<open>result()\<close>.
\<close>

record ('w, 'o, 'x) env =
  model_call :: "'w \<Rightarrow> 'x pyval list \<Rightarrow> bool \<Rightarrow> error + (real tensor \<times> outputs)"
  tape_gradient :: "'w \<Rightarrow> 'x pyval list \<Rightarrow> grads"
  apply_gradients :: "'o \<Rightarrow> grads \<Rightarrow> 'w \<Rightarrow> 'o \<times> 'w"
  strategy_run ::
    "(('w, 'o) tf_vars \<Rightarrow> 'x pyval list \<Rightarrow> error + (('w, 'o) tf_vars \<times> real tensor \<times> outputs))
      \<Rightarrow> ('w, 'o) tf_vars \<Rightarrow> 'x pyval list
      \<Rightarrow> error + (('w, 'o) tf_vars \<times> real tensor list \<times> (string \<times> real tensor list) list)"
  learning_rate_fn :: "nat \<Rightarrow> real"
  metric_result :: "metric_kind \<Rightarrow> metric_update list \<Rightarrow> real"

record ('w, 'o, 'x) loop_state =
  vars :: "('w, 'o) tf_vars"
  num_steps :: nat
  local_step :: nat
  train_metrics :: "(string \<times> metric) list"
  valid_metrics :: "(string \<times> metric) list"
  trace :: "'x event list"

definition emit :: "'x event \<Rightarrow> ('w, 'o, 'x) loop_state \<Rightarrow> ('w, 'o, 'x) loop_state" where
  "emit e st = st\<lparr>trace := trace st @ [e]\<rparr>"

definition train_step ::
  "('w, 'o, 'x) env \<Rightarrow> config \<Rightarrow> bool \<Rightarrow> ('w, 'o) tf_vars \<Rightarrow> 'x pyval list
    \<Rightarrow> error + (('w, 'o) tf_vars \<times> real tensor \<times> outputs)" where
  "train_step E cfg take_step vs inputs =
     bind_err (wrap_inputs cfg inputs) (\<lambda>wrapped.
     bind_err (model_call E (weights vs) wrapped True) (\<lambda>(total_loss, outs).
     let unscaled_loss = total_loss;
         gradients = tape_gradient E (weights vs) wrapped
     in
     bind_err (accumulator_call (accumulator vs) gradients) (\<lambda>acc.
     if take_step then
       let reduced_accumulated_gradients =
             map (map_option (\<lambda>g. tensor_div g (real (gradient_accumulation_steps cfg))))
               (accumulated_gradients acc);
           clipped_accumulated_gradients =
             clip_by_global_norm reduced_accumulated_gradients 1;
           (o', w') = apply_gradients E (opt_state vs) clipped_accumulated_gradients (weights vs)
       in Inr (\<lparr>weights = w', opt_state = o', accumulator = accumulator_reset acc\<rparr>,
               unscaled_loss, outs)
     else Inr (vs\<lparr>accumulator := acc\<rparr>, unscaled_loss, outs))))"

definition distributed_train_step ::
  "('w, 'o, 'x) env \<Rightarrow> config \<Rightarrow> bool \<Rightarrow> ('w, 'o) tf_vars \<Rightarrow> 'x pyval list
    \<Rightarrow> error + (('w, 'o) tf_vars \<times> real tensor \<times> outputs)" where
  "distributed_train_step E cfg take_step vs inputs =
     bind_err (strategy_run E (train_step E cfg take_step) vs inputs) (\<lambda>(vs', unscaled_loss, outs).
     bind_err (strategy_reduce_mean unscaled_loss outs) (\<lambda>(loss, features).
     Inr (vs', loss, features)))"

definition test_step ::
  "('w, 'o, 'x) env \<Rightarrow> config \<Rightarrow> ('w, 'o) tf_vars \<Rightarrow> 'x pyval list
    \<Rightarrow> error + (('w, 'o) tf_vars \<times> real tensor \<times> outputs)" where
  "test_step E cfg vs inputs =
     bind_err (wrap_inputs cfg inputs) (\<lambda>wrapped.
     bind_err (model_call E (weights vs) wrapped False) (\<lambda>(total_loss, outs).
     Inr (vs, total_loss, outs)))"

definition distributed_test_step ::
  "('w, 'o, 'x) env \<Rightarrow> config \<Rightarrow> ('w, 'o) tf_vars \<Rightarrow> 'x pyval list
    \<Rightarrow> error + (('w, 'o) tf_vars \<times> real tensor \<times> outputs)" where
  "distributed_test_step E cfg vs inputs =
     bind_err (strategy_run E (test_step E cfg) vs inputs) (\<lambda>(vs', unscaled_loss, outs).
     bind_err (strategy_reduce_mean unscaled_loss outs) (\<lambda>(loss, features).
     Inr (vs', loss, features)))"

definition train_fn ::
  "('w, 'o, 'x) env \<Rightarrow> config \<Rightarrow> bool \<Rightarrow> ('w, 'o) tf_vars \<Rightarrow> 'x pyval list
    \<Rightarrow> error + (('w, 'o) tf_vars \<times> real tensor \<times> outputs)" where
  "train_fn E cfg = (if distribute cfg then distributed_train_step E cfg else train_step E cfg)"

definition test_fn ::
  "('w, 'o, 'x) env \<Rightarrow> config \<Rightarrow> ('w, 'o) tf_vars \<Rightarrow> 'x pyval list
    \<Rightarrow> error + (('w, 'o) tf_vars \<times> real tensor \<times> outputs)" where
  "test_fn E cfg = (if distribute cfg then distributed_test_step E cfg else test_step E cfg)"

text \<open>One batch of the evaluation loop.\<close>

definition evaluate_batch ::
  "('w, 'o, 'x) env \<Rightarrow> config \<Rightarrow> bool \<Rightarrow> ('w, 'o, 'x) loop_state \<Rightarrow> nat \<times> 'x pyval list
    \<Rightarrow> error + ('w, 'o, 'x) loop_state" where
  "evaluate_batch E cfg run_callback st ib =
     (case ib of (index, inputs) \<Rightarrow>
        let st = (if run_callback then emit (OnTestBatchBegin index) st else st) in
        bind_err (test_fn E cfg (vars st) inputs) (\<lambda>(vs, total_loss, outs).
        let st = emit (CallTestFn index inputs total_loss outs) (st\<lparr>vars := vs\<rparr>) in
        bind_err (update_state (valid_metrics st) ''total_loss'' (Inr (Values total_loss))) (\<lambda>m.
        bind_err (metric_fn cfg m outs) (\<lambda>m.
        let st = st\<lparr>valid_metrics := m\<rparr> in
        Inr (if run_callback
             then emit (OnTestBatchEnd index (create_metric_logs (metric_result E) (valid_metrics st))) st
             else st)))))"

definition evaluate ::
  "('w, 'o, 'x) env \<Rightarrow> config \<Rightarrow> 'x pyval list list \<Rightarrow> bool \<Rightarrow> ('w, 'o, 'x) loop_state
    \<Rightarrow> error + (('w, 'o, 'x) loop_state \<times> logs)" where
  "evaluate E cfg valid_dataset run_callback st =
     (let st = (if run_callback then emit OnTestBegin st else st) in
      bind_err (foldM (evaluate_batch E cfg run_callback) st (enumerate 0 valid_dataset)) (\<lambda>st.
      let logs = create_metric_logs (metric_result E) (valid_metrics st);
          st = (if run_callback then emit (OnTestEnd logs) st else st);
          val_logs = map (\<lambda>(key, v). (''val_'' @ key, v)) logs;
          st = emit (WandbLog val_logs (num_steps st)) st
      in Inr (st, val_logs)))"

definition reset_metrics :: "('w, 'o, 'x) loop_state \<Rightarrow> ('w, 'o, 'x) loop_state" where
  "reset_metrics st =
     st\<lparr>train_metrics := reset_state (train_metrics st),
        valid_metrics := reset_state (valid_metrics st)\<rparr>"

text \<open>
  The first \<open>count\<close> elements of one iteration over the training source; the source
  gives its element at each position, or \<open>None\<close> from its end on.
\<close>

definition dataset_take :: "nat \<Rightarrow> (nat \<Rightarrow> 'a option) \<Rightarrow> 'a list" where
  "dataset_take count ds = map the (takeWhile (\<lambda>x. x \<noteq> None) (map ds [0..<count]))"

definition accumulation_step :: "config \<Rightarrow> nat \<Rightarrow> nat \<Rightarrow> error + bool" where
  "accumulation_step cfg step n =
     (if gradient_accumulation_steps cfg = 0 then Inl ZeroDivisionError
      else Inr ((step + 1) mod gradient_accumulation_steps cfg = 0 \<or> n = 0))"

text \<open>One micro-batch of the training loop.\<close>

definition train_batch ::
  "('w, 'o, 'x) env \<Rightarrow> config \<Rightarrow> ('w, 'o, 'x) loop_state \<Rightarrow> nat \<times> 'x pyval list
    \<Rightarrow> error + ('w, 'o, 'x) loop_state" where
  "train_batch E cfg st sb =
     (case sb of (step, input_batches) \<Rightarrow>
        bind_err (accumulation_step cfg step (num_steps st)) (\<lambda>acc_step.
        let st0 = (if acc_step then emit (OnTrainBatchBegin (local_step st)) st else st) in
        bind_err (train_fn E cfg acc_step (vars st0) input_batches) (\<lambda>(vs, training_loss, eval_inputs).
        let st1 = emit (CallTrainFn step (local_step st0) (num_steps st0) acc_step input_batches
                          training_loss eval_inputs) (st0\<lparr>vars := vs\<rparr>)
        in
        if acc_step then
          bind_err (update_state (train_metrics st1) ''total_loss'' (Inr (Values training_loss))) (\<lambda>m.
          bind_err (metric_fn cfg m eval_inputs) (\<lambda>m.
          let st2 = st1\<lparr>train_metrics := m\<rparr>;
              batch_logs = create_metric_logs (metric_result E) (train_metrics st2);
              st3 = emit (ProgbarUpdate (local_step st2) batch_logs False) st2;
              st4 = emit (WandbLog batch_logs (num_steps st3)) st3;
              st5 = emit (WandbLog [(''learning_rate'', learning_rate_fn E (num_steps st4))]
                            (num_steps st4)) st4;
              st6 = emit (OnTrainBatchEnd (local_step st5) batch_logs) st5
          in Inr (st6\<lparr>local_step := local_step st6 + 1, num_steps := num_steps st6 + 1\<rparr>)))
        else Inr st1)))"

text \<open>One epoch: the body of the loop over \<open>range(initial_epoch, epochs)\<close>.\<close>

definition run_epoch ::
  "('w, 'o, 'x) env \<Rightarrow> config \<Rightarrow> (nat \<Rightarrow> nat \<Rightarrow> 'x pyval list option) \<Rightarrow> 'x pyval list list \<Rightarrow> nat
    \<Rightarrow> ('w, 'o, 'x) loop_state \<times> logs option \<Rightarrow> nat
    \<Rightarrow> error + (('w, 'o, 'x) loop_state \<times> logs option)" where
  "run_epoch E cfg train_dataset valid_dataset n_steps_per_epoch sl epoch =
     (case sl of (st, training_logs) \<Rightarrow>
        let st = reset_metrics st;
            st = emit (OnEpochBegin epoch) st;
            st = emit (Print (CHR 0x0A # ''Epoch '' @ str_nat (epoch + 1) @ ''/''
                                @ str_nat (epochs cfg))) st;
            st = st\<lparr>vars := (vars st)\<lparr>accumulator := accumulator_reset (accumulator (vars st))\<rparr>\<rparr>;
            st = st\<lparr>local_step := 0\<rparr>
        in
        bind_err (foldM (train_batch E cfg) st
                    (enumerate 0 (dataset_take (n_steps_per_epoch * gradient_accumulation_steps cfg)
                                    (train_dataset epoch)))) (\<lambda>st.
        let train_logs = create_metric_logs (metric_result E) (train_metrics st);
            epoch_logs = train_logs
        in
        bind_err (evaluate E cfg valid_dataset True st) (\<lambda>(st, eval_logs).
        let epoch_logs = dict_update epoch_logs eval_logs;
            st = emit (ProgbarUpdate n_steps_per_epoch epoch_logs True) st;
            training_logs = Some epoch_logs;
            st = emit (OnEpochEnd epoch epoch_logs) st
        in Inr (st, training_logs))))"

text \<open>
  \<open>w0\<close> are the weights of the model built (and restored from a checkpoint, if
  configured), \<open>o0\<close> the state of the optimizer \<open>create_optimizer\<close> returns.
  \<open>train_dataset e\<close> is the sequence the training source yields when it is iterated in
  epoch \<open>e\<close> (it is reshuffled on every iteration); the validation source is finite
  and yields the same batches on every pass.
\<close>

definition run_train ::
  "('w, 'o, 'x) env \<Rightarrow> config \<Rightarrow> 'w \<Rightarrow> 'o \<Rightarrow> (nat \<Rightarrow> nat \<Rightarrow> 'x pyval list option)
    \<Rightarrow> 'x pyval list list \<Rightarrow> nat \<Rightarrow> error + ('w, 'o, 'x) loop_state" where
  "run_train E cfg w0 o0 train_dataset valid_dataset n_steps_per_epoch =
     (let st = \<lparr>vars = \<lparr>weights = w0, opt_state = o0, accumulator = []\<rparr>,
                num_steps = 0, local_step = 0,
                train_metrics = create_metric_map cfg, valid_metrics = create_metric_map cfg,
                trace = []\<rparr>
      in
      bind_err (if \<not> skip_early_eval cfg
                then bind_err (evaluate E cfg valid_dataset False st) (\<lambda>(st, _). Inr st)
                else Inr (emit (LoggingInfo ''Skipping early evaluation'') st)) (\<lambda>st.
      let st = emit OnTrainBegin st in
      bind_err (foldM (run_epoch E cfg train_dataset valid_dataset n_steps_per_epoch) (st, None)
                  [initial_epoch cfg..<epochs cfg]) (\<lambda>(st, training_logs).
      Inr (emit (OnTrainEnd training_logs) st))))"

subsection \<open>A concrete configuration\<close>

text \<open>The end-to-end scenario's settings; the examples below vary single fields of it.\<close>

definition scenario_config :: config where
  "scenario_config = \<lparr>num_k_fold = 5, current_fold = 0, seed = 42, batch_size = 2,
      gradient_accumulation_steps = 1, dynamic_datagen = False, num_sections = 2,
      num_labels = 2, include_sections = False, distribute = False,
      skip_early_eval = False, initial_epoch = 0, epochs = 1\<rparr>"

text \<open>
  A stand-in for scikit-learn in the examples: a fixed 2-fold split of six examples.
\<close>

definition example_kfold_split ::
  "int \<Rightarrow> int \<Rightarrow> string list \<Rightarrow> int list \<Rightarrow> error + (nat list \<times> nat list) list" where
  "example_kfold_split n_splits random_state X y = Inr [([0, 1, 2], [3, 4, 5]), ([3, 4, 5], [0, 1, 2])]"

text \<open>
  Stand-ins for the collaborators in the examples: a model with one scalar weight whose
  loss is the weight, a fixed gradient, plain gradient descent that counts its updates,
  two replicas that compute the same values, and metrics that count their updates.
\<close>

definition example_outputs :: outputs where
  "example_outputs =
     [(''contrastive_loss'', Tensor [] [1 / 2]), (''cross_entropy_loss'', Tensor [] [1 / 4]),
      (''ohe_labels'', Tensor [1, 2] [1, 0]), (''probs'', Tensor [1, 2] [3 / 4, 1 / 4])]"

definition example_env :: "(real, nat, nat) env" where
  "example_env =
     \<lparr>model_call = (\<lambda>w inputs training. Inr (Tensor [] [w], example_outputs)),
      tape_gradient = (\<lambda>w inputs. [Some (Tensor [2] [3 / 5, 4 / 5]), None]),
      apply_gradients = (\<lambda>n gs w.
         (n + 1, w - sum_list (concat (map (\<lambda>g. case g of None \<Rightarrow> [] | Some t \<Rightarrow> flat t) gs)))),
      strategy_run = (\<lambda>step vs inputs.
         bind_err (step vs inputs) (\<lambda>(vs', l, outs).
         Inr (vs', [l, l], map (\<lambda>(k, v). (k, [v, v])) outs))),
      learning_rate_fn = (\<lambda>n. 1 / (1 + real n)),
      metric_result = (\<lambda>kind us. real (length us))\<rparr>"

definition example_batch :: "nat pyval list" where
  "example_batch = [Leaf 7, Tuple [Leaf 0, Leaf 1], Tuple [Leaf 2, Leaf 3]]"

section \<open>Properties\<close>

lemma bind_err_Inl [simp]: "bind_err (Inl e) f = Inl e"
  by (simp add: bind_err_def)

lemma bind_err_Inr [simp]: "bind_err (Inr x) f = f x"
  by (simp add: bind_err_def)

text \<open>Evaluate the first step before looking into what follows it.\<close>

lemma bind_err_weak_cong [cong]: "m = m' \<Longrightarrow> bind_err m f = bind_err m' f"
  by simp

lemma bind_err_eq_Inr: "bind_err m f = Inr y \<longleftrightarrow> (\<exists>x. m = Inr x \<and> f x = Inr y)"
  by (cases m) simp_all

subsection \<open>Class-weight rearranger\<close>

lemma concat_chunk:
  "\<forall>x\<in>set xss. length x = C \<Longrightarrow> i < length xss \<Longrightarrow> take C (drop (i * C) (concat xss)) = xss ! i"
proof (induction xss arbitrary: i)
  case Nil then show ?case by simp
next
  case (Cons x xss)
  show ?case
  proof (cases i)
    case 0 with Cons.prems show ?thesis by simp
  next
    case (Suc j)
    with Cons.prems have "take C (drop (j * C) (concat xss)) = xss ! j"
      by (intro Cons.IH) auto
    with Suc Cons.prems show ?thesis by (simp add: add.commute)
  qed
qed

lemma index_of_first:
  "i < length xs \<Longrightarrow> xs ! i = v \<Longrightarrow> (\<forall>j<i. xs ! j \<noteq> v) \<Longrightarrow> index_of v xs = i"
proof (induction xs arbitrary: i)
  case Nil then show ?case by simp
next
  case (Cons x xs)
  show ?case
  proof (cases i)
    case 0 with Cons.prems show ?thesis by simp
  next
    case (Suc j)
    from Cons.prems Suc have "x \<noteq> v" by auto
    moreover have "index_of v xs = j"
      using Cons.prems Suc by (intro Cons.IH) auto
    ultimately show ?thesis using Suc by simp
  qed
qed

lemma fold_max_Max: "fold max r (x::int) = Max (set (x # r))"
  by (rule Max.set_eq_fold [symmetric])

lemma list_max_one_hot: "0 \<le> y \<Longrightarrow> y < int C \<Longrightarrow> list_max (one_hot C y) = 1"
proof -
  assume y: "0 \<le> y" "y < int C"
  then have ne: "one_hot C y \<noteq> []" by (auto simp: one_hot_def)
  then obtain x r where xr: "one_hot C y = x # r" by (cases "one_hot C y") auto
  have "Max (set (one_hot C y)) = 1"
  proof (rule Max_eqI)
    show "finite (set (one_hot C y))" by simp
    show "\<And>z. z \<in> set (one_hot C y) \<Longrightarrow> z \<le> 1" by (auto simp: one_hot_def)
    have "nat y < C" using y by auto
    then have "one_hot C y ! nat y = 1" using y by (simp add: one_hot_def)
    moreover have "nat y < length (one_hot C y)" using y by (simp add: one_hot_def)
    ultimately show "1 \<in> set (one_hot C y)" by (metis nth_mem)
  qed
  then show ?thesis using xr by (simp add: list_max_def fold_max_Max)
qed

lemma argmax_one_hot: "0 \<le> y \<Longrightarrow> y < int C \<Longrightarrow> argmax (one_hot C y) = nat y"
  unfolding argmax_def
  by (simp add: list_max_one_hot, rule index_of_first) (auto simp: one_hot_def)


lemma tensor_rows_one_hot_batch:
  "tensor_rows (one_hot_batch C ys) = map (one_hot C) ys"
proof -
  have len: "\<forall>x\<in>set (map (one_hot C) ys). length x = C" by (simp add: one_hot_def)
  have "map (\<lambda>i. take C (drop (i * C) (concat (map (one_hot C) ys)))) [0..<length ys]
        = map (\<lambda>i. map (one_hot C) ys ! i) [0..<length ys]"
    using concat_chunk [OF len] by simp
  also have "\<dots> = map (one_hot C) ys"
    by (metis length_map map_nth)
  finally show ?thesis by (simp add: tensor_rows_def one_hot_batch_def)
qed

lemma rearrange_one_hot_index:
  assumes "1 < C" "list_all (\<lambda>y. 0 \<le> y \<and> y < int C) ys"
  shows "rearrange_cw (one_hot_batch C ys) cw_tensor = rearrange_cw (index_batch ys) cw_tensor"
proof -
  have "map (\<lambda>r. int (argmax r)) (map (one_hot C) ys) = ys"
    using assms(2) by (induction ys) (simp_all add: argmax_one_hot)
  then have "tf_argmax_axis1 (one_hot_batch C ys) = Tensor [length ys] ys"
    by (simp add: tf_argmax_axis1_def tensor_rows_one_hot_batch) (simp add: one_hot_batch_def)
  moreover have "tf_reshape_flat (index_batch ys) = Tensor [length ys] ys"
    by (simp add: tf_reshape_flat_def index_batch_def)
  ultimately show ?thesis
    using assms(1) by (simp add: rearrange_cw_def one_hot_batch_def index_batch_def)
qed

lemma mapM_eq_Inr: "mapM f xs = Inr ys \<longleftrightarrow> list_all2 (\<lambda>x y. f x = Inr y) xs ys"
proof (induction xs arbitrary: ys)
  case Nil then show ?case by auto
next
  case (Cons x xs)
  show ?case by (cases ys) (auto simp: bind_err_eq_Inr Cons.IH)
qed

lemma sorted_int_upt: "sorted (map int [0..<n])"
  by (simp add: sorted_map sorted_wrt_mono_rel [OF _ sorted_upt])

lemma calc_cw_tensor_Inr:
  assumes "calc_cw_tensor table = Inr cw_tensor"
  shows "length (flat cw_tensor) = length table"
    and "fst ` set table = int ` {0..<length table}"
    and "\<And>i. i < length table \<Longrightarrow> map_of table (int i) = Some (flat cw_tensor ! i)"
proof -
  let ?n = "length table"
  from assms have keys: "sort (map fst table) = map int [0..<?n]"
    by (auto simp: calc_cw_tensor_def Let_def split: if_splits)
  from assms keys obtain ws where ws: "mapM (dict_get table) (map int [0..<?n]) = Inr ws"
    and t: "cw_tensor = Tensor [length ws] ws"
    by (auto simp: calc_cw_tensor_def Let_def bind_err_eq_Inr split: if_splits)
  from ws have l2: "list_all2 (\<lambda>x y. dict_get table x = Inr y) (map int [0..<?n]) ws"
    by (simp add: mapM_eq_Inr)
  then have lw: "length ws = ?n" by (auto dest: list_all2_lengthD)
  with t show "length (flat cw_tensor) = length table" by simp
  have "set (map fst table) = set (sort (map fst table))" by simp
  also have "\<dots> = int ` {0..<?n}" unfolding keys by simp
  finally show "fst ` set table = int ` {0..<length table}" by simp
  fix i assume i: "i < length table"
  with l2 lw have "dict_get table (map int [0..<?n] ! i) = Inr (ws ! i)"
    by (simp add: list_all2_conv_all_nth)
  with i have "dict_get table (int i) = Inr (ws ! i)" by simp
  then show "map_of table (int i) = Some (flat cw_tensor ! i)"
    using t by (auto simp: dict_get_def split: option.splits)
qed

lemma rearrange_cw_spec:
  "rearrange_cw labels cw_tensor =
     (if list_all (\<lambda>c. 0 \<le> c \<and> c < int (length (flat cw_tensor))) (spec_class_indices labels)
      then Inr (Tensor (if length (shape labels) = 2 \<and> 1 < shape labels ! 1 then [shape labels ! 0] else [length (flat labels)])
                 (map (\<lambda>c. flat cw_tensor ! nat c) (spec_class_indices labels)))
      else Inl InvalidArgumentError)"
  by (simp add: rearrange_cw_def spec_class_indices_def tf_gather_def tf_argmax_axis1_def
      tf_reshape_flat_def)

lemma rearrange_cw_table:
  assumes "calc_cw_tensor table = Inr cw_tensor"
  shows "(list_all (\<lambda>c. c \<in> fst ` set table) (spec_class_indices labels) \<longrightarrow>
           (\<exists>t. rearrange_cw labels cw_tensor = Inr t
              \<and> map Some (flat t) = map (map_of table) (spec_class_indices labels)))
       \<and> (\<not> list_all (\<lambda>c. c \<in> fst ` set table) (spec_class_indices labels) \<longrightarrow>
            rearrange_cw labels cw_tensor = Inl InvalidArgumentError)"
proof -
  note c = calc_cw_tensor_Inr [OF assms]
  have mem: "\<And>k. k \<in> fst ` set table \<longleftrightarrow> 0 \<le> k \<and> k < int (length (flat cw_tensor))"
  proof -
    fix k :: int
    show "k \<in> fst ` set table \<longleftrightarrow> 0 \<le> k \<and> k < int (length (flat cw_tensor))"
    proof
      assume "k \<in> fst ` set table"
      then obtain i where "i < length table" "k = int i" unfolding c(2) by auto
      then show "0 \<le> k \<and> k < int (length (flat cw_tensor))" by (simp add: c(1))
    next
      assume "0 \<le> k \<and> k < int (length (flat cw_tensor))"
      then have "nat k < length table" "k = int (nat k)" by (simp_all add: c(1) nat_less_iff)
      then show "k \<in> fst ` set table" unfolding c(2) by (metis atLeastLessThan_iff imageI le0)
    qed
  qed
  have look: "\<And>k. 0 \<le> k \<Longrightarrow> k < int (length table) \<Longrightarrow> map_of table k = Some (flat cw_tensor ! nat k)"
  proof -
    fix k :: int assume "0 \<le> k" "k < int (length table)"
    then have "nat k < length table" "k = int (nat k)" by (simp_all add: nat_less_iff)
    then show "map_of table k = Some (flat cw_tensor ! nat k)" using c(3) [of "nat k"] by simp
  qed
  show ?thesis
    unfolding mem rearrange_cw_spec
    by (auto simp: list_all_iff c(1) look)
qed

text \<open>
  C5: for a class-weight table (with the contiguous keys \<open>calc_cw_tensor\<close> accepts)
  and any label batch, the rearranger returns, example by example, the table's weight
  at the example's class id, where the class ids of a two-dimensional batch of width
  greater than 1 are the arg-max of its rows and those of any other batch are its
  elements; a class id outside the table makes the gather raise. A one-hot batch and
  the index batch of the same class ids give the same result. With the table
  \<open>{0: 2.0, 1: 0.5}\<close>, the one-hot batch \<open>[[1,0],[0,1]]\<close> and the index batch
  \<open>[0,1]\<close> both yield \<open>[2.0, 0.5]\<close>.
\<close>

theorem rearrange_cw_gathers:
  "(calc_cw_tensor table = Inr cw_tensor \<longrightarrow>
      (list_all (\<lambda>c. c \<in> fst ` set table) (spec_class_indices labels) \<longrightarrow>
         (\<exists>t. rearrange_cw labels cw_tensor = Inr t
            \<and> map Some (flat t) = map (map_of table) (spec_class_indices labels)))
    \<and> (\<not> list_all (\<lambda>c. c \<in> fst ` set table) (spec_class_indices labels) \<longrightarrow>
          rearrange_cw labels cw_tensor = Inl InvalidArgumentError))
   \<and> (1 < C \<and> list_all (\<lambda>y. 0 \<le> y \<and> y < int C) ys \<longrightarrow>
        rearrange_cw (one_hot_batch C ys) cw_tensor = rearrange_cw (index_batch ys) cw_tensor)
   \<and> calc_cw_tensor [(0, 2), (1, 1 / 2)] = Inr (Tensor [2] [2, 1 / 2])
   \<and> rearrange_cw (Tensor [2, 2] [1, 0, 0, 1]) (Tensor [2] [2, 1 / 2]) = Inr (Tensor [2] [2, 1 / 2])
   \<and> rearrange_cw (Tensor [2] [0, 1]) (Tensor [2] [2, 1 / 2]) = Inr (Tensor [2] [2, 1 / 2])"
proof -
  have "calc_cw_tensor [(0, 2), (1, 1 / 2)] = Inr (Tensor [2] [2, 1 / 2])"
    by (simp add: calc_cw_tensor_def dict_get_def upt_rec)
  moreover have "rearrange_cw (Tensor [2, 2] [1, 0, 0, 1]) (Tensor [2] [2, 1 / 2])
      = Inr (Tensor [2] [2, 1 / 2])"
    by (simp add: rearrange_cw_def tf_argmax_axis1_def tensor_rows_def argmax_def
        list_max_def tf_gather_def upt_rec)
  moreover have "rearrange_cw (Tensor [2] [0, 1]) (Tensor [2] [2, 1 / 2])
      = Inr (Tensor [2] [2, 1 / 2])"
    by (simp add: rearrange_cw_def tf_reshape_flat_def tf_gather_def)
  ultimately show ?thesis
    using rearrange_cw_table [of table cw_tensor labels] rearrange_one_hot_index [of C ys cw_tensor]
    by blast
qed

theorem rearrange_cw_gathers_witness:
  "(\<exists>t. rearrange_cw (Tensor [3] [2, 0, 2]) (Tensor [3] [2, 1 / 2, 4]) = Inr t
      \<and> flat t = [4, 2, 4])
   \<and> rearrange_cw (one_hot_batch 3 [2, 0, 2]) (Tensor [3] [2, 1 / 2, 4])
     = rearrange_cw (index_batch [2, 0, 2]) (Tensor [3] [2, 1 / 2, 4])
   \<and> rearrange_cw (Tensor [2] [3, 0]) (Tensor [3] [2, 1 / 2, 4]) = Inl InvalidArgumentError"
proof -
  have c: "calc_cw_tensor [(1, 1 / 2), (0, 2), (2, 4)] = Inr (Tensor [3] [2, 1 / 2, 4])"
    by (simp add: calc_cw_tensor_def dict_get_def upt_rec)
  have a: "spec_class_indices (Tensor [3] [2, 0, 2]) = [2, 0, 2]"
    by (simp add: spec_class_indices_def)
  have b: "spec_class_indices (Tensor [2] [3, 0]) = [3, 0]"
    by (simp add: spec_class_indices_def)
  show ?thesis
    using rearrange_cw_gathers [of "[(1, 1 / 2), (0, 2), (2, 4)]" "Tensor [3] [2, 1 / 2, 4]"
        "Tensor [3] [2, 0, 2]" 3 "[2, 0, 2]"]
      rearrange_cw_gathers [of "[(1, 1 / 2), (0, 2), (2, 4)]" "Tensor [3] [2, 1 / 2, 4]"
        "Tensor [2] [3, 0]" 3 "[2, 0, 2]"]
    by (auto simp: c a b map_eq_Cons_conv)
qed

subsection \<open>Fold splitter\<close>

lemma select_fold_enumerate:
  "select_fold cfg tok ids secs labs (enumerate k folds) =
     (if int k \<le> current_fold cfg \<and> current_fold cfg < int (k + length folds)
      then selected_fold cfg tok ids secs labs
             (fst (folds ! (nat (current_fold cfg) - k))) (snd (folds ! (nat (current_fold cfg) - k)))
      else Inl (ValueError (''Invalid current fold number: '' @ str_int (current_fold cfg)
            @ '' out of total '' @ str_int (num_k_fold cfg) @ '' folds'')))"
proof (induction folds arbitrary: k)
  case Nil
  then show ?case by auto
next
  case (Cons f fs)
  obtain tr va where f: "f = (tr, va)" by (cases f)
  show ?case
  proof (cases "int k = current_fold cfg")
    case True
    then show ?thesis using f by auto
  next
    case False
    then have "nat (current_fold cfg) - k = Suc (nat (current_fold cfg) - Suc k)"
      if "int k \<le> current_fold cfg" using that by linarith
    with False show ?thesis using f Cons.IH [of "Suc k"] by auto
  qed
qed

lemma map_of_dict_enumerate:
  "map_of (dict_enumerate ws) k = (if 0 \<le> k \<and> k < int (length ws) then Some (ws ! nat k) else None)"
proof (cases "0 \<le> k \<and> k < int (length ws)")
  case True
  then have i: "nat k < length ws" "k = int (nat k)" by (simp_all add: nat_less_iff)
  have d: "distinct (map int [0..<length ws])" by (simp add: distinct_map)
  have "map_of (zip (map int [0..<length ws]) ws) (map int [0..<length ws] ! nat k) = Some (ws ! nat k)"
    using i(1) d by (intro map_of_zip_nth) simp_all
  moreover have "map int [0..<length ws] ! nat k = k" using i by simp
  ultimately show ?thesis using True by (simp add: dict_enumerate_def)
next
  case False
  then have "k \<notin> set (map int [0..<length ws])" by auto
  then have "map_of (zip (map int [0..<length ws]) ws) k = None"
    by (simp add: map_of_zip_is_None)
  with False show ?thesis by (auto simp: dict_enumerate_def)
qed

lemma mapM_all_Inr: "(\<And>x. x \<in> set xs \<Longrightarrow> f x = Inr (g x)) \<Longrightarrow> mapM f xs = Inr (map g xs)"
  by (induction xs) simp_all

lemma log_class_weights_ok:
  "n \<le> length ws \<Longrightarrow> log_class_weights n (dict_enumerate ws) = Inr ()"
proof -
  assume n: "n \<le> length ws"
  have "mapM (\<lambda>i. dict_get (dict_enumerate ws) (int i)) [0..<n] = Inr (map (\<lambda>i. ws ! i) [0..<n])"
    using n by (intro mapM_all_Inr) (simp add: dict_get_def map_of_dict_enumerate)
  then show ?thesis by (simp add: log_class_weights_def)
qed

lemma length_np_unique: "length (np_unique y) = card (set y)"
  by (simp add: np_unique_def length_remdups_card_conv)

lemma length_balanced_class_weight: "length (balanced_class_weight y) = card (set y)"
  by (simp add: balanced_class_weight_def length_np_unique)

lemma map_fst_dict_enumerate: "map fst (dict_enumerate ws) = map int [0..<length ws]"
  by (simp add: dict_enumerate_def)

lemma calc_cw_tensor_dict_enumerate:
  "calc_cw_tensor (dict_enumerate ws) = Inr (Tensor [length ws] ws)"
proof -
  have s: "sort (map int [0..<length ws]) = map int [0..<length ws]"
    by (rule sort_key_id_if_sorted) (simp add: sorted_int_upt)
  have "mapM (dict_get (dict_enumerate ws)) (map int [0..<length ws])
      = Inr (map (\<lambda>k. ws ! nat k) (map int [0..<length ws]))"
    by (intro mapM_all_Inr) (auto simp: dict_get_def map_of_dict_enumerate)
  moreover have "map (\<lambda>k. ws ! nat k) (map int [0..<length ws]) = ws"
    by (simp add: comp_def map_nth)
  ultimately show ?thesis
    by (simp add: calc_cw_tensor_def Let_def map_fst_dict_enumerate s dict_enumerate_def)
qed

lemma np_take_ok: "list_all (\<lambda>i. i < length xs) idxs \<Longrightarrow> np_take xs idxs = Inr (map (\<lambda>i. xs ! i) idxs)"
  by (simp add: np_take_def)

lemma selected_fold_ok:
  assumes "list_all (\<lambda>i. i < length ids) tr" "list_all (\<lambda>i. i < length ids) va"
    and "length secs = length ids" "length labs = length ids"
    and "batch_size cfg \<noteq> 0" "gradient_accumulation_steps cfg \<noteq> 0"
    and "num_sections cfg \<le> card (set (map (\<lambda>i. secs ! i) tr))"
    and "num_labels cfg \<le> card (set (map (\<lambda>i. labs ! i) tr))"
  shows "\<exists>out. selected_fold cfg tok ids secs labs tr va = Inr out
      \<and> data_input_ids (training out) = map (\<lambda>i. ids ! i) tr
      \<and> data_sections (training out) = map (\<lambda>i. secs ! i) tr
      \<and> data_labels (training out) = map (\<lambda>i. labs ! i) tr
      \<and> data_input_ids (validation out) = map (\<lambda>i. ids ! i) va
      \<and> data_sections (validation out) = map (\<lambda>i. secs ! i) va
      \<and> data_labels (validation out) = map (\<lambda>i. labs ! i) va"
proof -
  have t: "np_take ids tr = Inr (map (\<lambda>i. ids ! i) tr)" "np_take secs tr = Inr (map (\<lambda>i. secs ! i) tr)"
    "np_take labs tr = Inr (map (\<lambda>i. labs ! i) tr)" "np_take ids va = Inr (map (\<lambda>i. ids ! i) va)"
    "np_take secs va = Inr (map (\<lambda>i. secs ! i) va)" "np_take labs va = Inr (map (\<lambda>i. labs ! i) va)"
    using assms(1-4) by (simp_all add: np_take_ok)
  have l: "log_class_weights (num_sections cfg) (dict_enumerate (balanced_class_weight (map (\<lambda>i. secs ! i) tr))) = Inr ()"
    "log_class_weights (num_labels cfg) (dict_enumerate (balanced_class_weight (map (\<lambda>i. labs ! i) tr))) = Inr ()"
    using assms(7,8) by (simp_all add: log_class_weights_ok length_balanced_class_weight)
  show ?thesis
    using assms(5,6) by (simp add: selected_fold_def t l floordiv_def ceildiv_def Let_def)
qed

lemma selected_fold_tables:
  assumes "selected_fold cfg tok ids secs labs tr va = Inr out"
  shows "sections_cw out = dict_enumerate (balanced_class_weight (data_sections (training out)))
       \<and> labels_cw out = dict_enumerate (balanced_class_weight (data_labels (training out)))"
  using assms
  by (auto simp: selected_fold_def bind_err_eq_Inr Let_def split: if_splits)


lemma splits_into_fold_selected:
  assumes "kfold_split (num_k_fold cfg) (seed cfg) input_ids labels = Inr folds"
  shows "splits_into_fold cfg tok kfold_split input_ids (sections, labels) =
     (if 0 \<le> current_fold cfg \<and> current_fold cfg < int (length folds)
      then selected_fold cfg tok input_ids sections labels
             (fst (folds ! nat (current_fold cfg))) (snd (folds ! nat (current_fold cfg)))
      else Inl (ValueError (''Invalid current fold number: '' @ str_int (current_fold cfg)
            @ '' out of total '' @ str_int (num_k_fold cfg) @ '' folds'')))"
  using assms select_fold_enumerate [of cfg tok input_ids sections labels 0 folds]
  by (simp add: splits_into_fold_def)

lemma splits_into_fold_tables:
  assumes "splits_into_fold cfg tok kfold_split input_ids (sections, labels) = Inr out"
  shows "sections_cw out = dict_enumerate (balanced_class_weight (data_sections (training out)))"
    and "labels_cw out = dict_enumerate (balanced_class_weight (data_labels (training out)))"
proof -
  from assms obtain folds where k: "kfold_split (num_k_fold cfg) (seed cfg) input_ids labels = Inr folds"
    by (auto simp: splits_into_fold_def bind_err_eq_Inr)
  from assms have "selected_fold cfg tok input_ids sections labels
             (fst (folds ! nat (current_fold cfg))) (snd (folds ! nat (current_fold cfg))) = Inr out"
    unfolding splits_into_fold_selected [where kfold_split = kfold_split and cfg = cfg, OF k]
    by (simp split: if_splits)
  from selected_fold_tables [OF this]
  show "sections_cw out = dict_enumerate (balanced_class_weight (data_sections (training out)))"
    and "labels_cw out = dict_enumerate (balanced_class_weight (data_labels (training out)))"
    by simp_all
qed

lemma enumerated_table:
  assumes "tbl = dict_enumerate (balanced_class_weight y)"
  shows "map fst tbl = map int [0..<card (set y)]"
    and "calc_cw_tensor tbl = Inr (Tensor [card (set y)] (map snd tbl))"
    and "\<forall>i<card (set y). map_of tbl (int i)
           = Some (real (length y) / (real (card (set y)) * real (count_list y (np_unique y ! i))))"
proof -
  have len: "length (balanced_class_weight y) = card (set y)"
    by (rule length_balanced_class_weight)
  show "map fst tbl = map int [0..<card (set y)]"
    unfolding assms by (simp add: map_fst_dict_enumerate len)
  have "map snd tbl = balanced_class_weight y"
    unfolding assms by (simp add: dict_enumerate_def)
  then show "calc_cw_tensor tbl = Inr (Tensor [card (set y)] (map snd tbl))"
    unfolding assms by (simp add: calc_cw_tensor_dict_enumerate len)
  show "\<forall>i<card (set y). map_of tbl (int i)
           = Some (real (length y) / (real (card (set y)) * real (count_list y (np_unique y ! i))))"
    unfolding assms
    by (simp add: map_of_dict_enumerate len) (simp add: balanced_class_weight_def length_np_unique)
qed

text \<open>
  C8 (as stated): every fold index inside \<open>[0, K)\<close> returns that fold's split. This
  fails when a class id below \<open>num_sections\<close> (or \<open>num_labels\<close>) has no entry in the
  fold's class-weight table, or when \<open>batch_size\<close> or \<open>gradient_accumulation_steps\<close>
  is zero: the splitter raises instead of returning. Here fold 0 of 2 is requested,
  \<open>num_sections = 2\<close>, and the training subset holds section 0 only.
\<close>

theorem splits_into_fold_counterexample:
  "splits_into_fold (scenario_config\<lparr>num_k_fold := 2\<rparr>) () example_kfold_split
     [''a'', ''b'', ''c'', ''d'', ''e'', ''f''] ([0, 0, 0, 1, 1, 1], [0, 1, 0, 1, 0, 1])
   = Inl (KeyError ''1'')"
  by (simp add: splits_into_fold_def example_kfold_split_def scenario_config_def enumerate_eq_zip
      selected_fold_def np_take_def floordiv_def ceildiv_def Let_def balanced_class_weight_def
      np_unique_def dict_enumerate_def log_class_weights_def dict_get_def upt_rec str_int_def
      str_nat.simps digit_char_def)

text \<open>
  C8 (amended): let scikit-learn yield \<open>K = num_k_fold\<close> index pairs. For every fold
  index inside \<open>[0, K)\<close> whose indices lie within the arrays, with \<open>batch_size\<close> and
  \<open>gradient_accumulation_steps\<close> non-zero and \<open>num_sections\<close>, \<open>num_labels\<close> not
  above the numbers of distinct section and label classes of the fold's training subset,
  the splitter returns exactly the train/validation split of that fold index. For every
  fold index outside \<open>[0, K)\<close> it raises a ValueError whose message names the index and
  the total fold count.
\<close>

theorem splits_into_fold_selects:
  assumes "kfold_split (num_k_fold cfg) (seed cfg) input_ids labels = Inr folds"
    and "int (length folds) = num_k_fold cfg"
  shows "(0 \<le> current_fold cfg \<and> current_fold cfg < num_k_fold cfg
          \<and> list_all (\<lambda>i. i < length input_ids) (fst (folds ! nat (current_fold cfg)))
          \<and> list_all (\<lambda>i. i < length input_ids) (snd (folds ! nat (current_fold cfg)))
          \<and> length sections = length input_ids \<and> length labels = length input_ids
          \<and> batch_size cfg \<noteq> 0 \<and> gradient_accumulation_steps cfg \<noteq> 0
          \<and> num_sections cfg \<le> card (set (map (\<lambda>i. sections ! i) (fst (folds ! nat (current_fold cfg)))))
          \<and> num_labels cfg \<le> card (set (map (\<lambda>i. labels ! i) (fst (folds ! nat (current_fold cfg)))))
        \<longrightarrow> (\<exists>out. splits_into_fold cfg tok kfold_split input_ids (sections, labels) = Inr out
              \<and> data_input_ids (training out) = map (\<lambda>i. input_ids ! i) (fst (folds ! nat (current_fold cfg)))
              \<and> data_sections (training out) = map (\<lambda>i. sections ! i) (fst (folds ! nat (current_fold cfg)))
              \<and> data_labels (training out) = map (\<lambda>i. labels ! i) (fst (folds ! nat (current_fold cfg)))
              \<and> data_input_ids (validation out) = map (\<lambda>i. input_ids ! i) (snd (folds ! nat (current_fold cfg)))
              \<and> data_sections (validation out) = map (\<lambda>i. sections ! i) (snd (folds ! nat (current_fold cfg)))
              \<and> data_labels (validation out) = map (\<lambda>i. labels ! i) (snd (folds ! nat (current_fold cfg)))))
       \<and> (\<not> (0 \<le> current_fold cfg \<and> current_fold cfg < num_k_fold cfg)
        \<longrightarrow> splits_into_fold cfg tok kfold_split input_ids (sections, labels)
              = Inl (ValueError (''Invalid current fold number: '' @ str_int (current_fold cfg)
                   @ '' out of total '' @ str_int (num_k_fold cfg) @ '' folds'')))"
  unfolding splits_into_fold_selected [where kfold_split = kfold_split and cfg = cfg, OF assms(1)]
    assms(2)
  using selected_fold_ok [of input_ids "fst (folds ! nat (current_fold cfg))"
      "snd (folds ! nat (current_fold cfg))" sections labels cfg tok]
  by auto

theorem splits_into_fold_selects_witness:
  "(\<exists>out. splits_into_fold (scenario_config\<lparr>num_k_fold := 2, current_fold := 1\<rparr>) ()
        example_kfold_split [''a'', ''b'', ''c'', ''d'', ''e'', ''f'']
        ([0, 0, 1, 1, 1, 0], [0, 1, 0, 1, 0, 1]) = Inr out
      \<and> data_input_ids (training out) = [''d'', ''e'', ''f'']
      \<and> data_sections (training out) = [1, 1, 0]
      \<and> data_labels (training out) = [1, 0, 1]
      \<and> data_input_ids (validation out) = [''a'', ''b'', ''c'']
      \<and> data_sections (validation out) = [0, 0, 1]
      \<and> data_labels (validation out) = [0, 1, 0])
   \<and> splits_into_fold (scenario_config\<lparr>num_k_fold := 2, current_fold := 2\<rparr>) ()
        example_kfold_split [''a'', ''b'', ''c'', ''d'', ''e'', ''f'']
        ([0, 0, 1, 1, 1, 0], [0, 1, 0, 1, 0, 1])
      = Inl (ValueError ''Invalid current fold number: 2 out of total 2 folds'')"
proof -
  let ?folds = "[([0, 1, 2], [3, 4, 5]), ([3, 4, 5], [0, 1, 2::nat])] :: (nat list \<times> nat list) list"
  let ?ids = "[''a'', ''b'', ''c'', ''d'', ''e'', ''f'']"
  have k1: "example_kfold_split (num_k_fold (scenario_config\<lparr>num_k_fold := 2, current_fold := 1\<rparr>))
      (seed (scenario_config\<lparr>num_k_fold := 2, current_fold := 1\<rparr>)) ?ids [0, 1, 0, 1, 0, 1] = Inr ?folds"
    and k2: "example_kfold_split (num_k_fold (scenario_config\<lparr>num_k_fold := 2, current_fold := 2\<rparr>))
      (seed (scenario_config\<lparr>num_k_fold := 2, current_fold := 2\<rparr>)) ?ids [0, 1, 0, 1, 0, 1] = Inr ?folds"
    by (simp_all add: example_kfold_split_def)
  have n1: "int (length ?folds) = num_k_fold (scenario_config\<lparr>num_k_fold := 2, current_fold := 1\<rparr>)"
    and n2: "int (length ?folds) = num_k_fold (scenario_config\<lparr>num_k_fold := 2, current_fold := 2\<rparr>)"
    by simp_all
  show ?thesis
    using splits_into_fold_selects [where kfold_split = example_kfold_split
          and cfg = "scenario_config\<lparr>num_k_fold := 2, current_fold := 1\<rparr>"
          and sections = "[0, 0, 1, 1, 1, 0]" and tok = "()", OF k1 n1]
      splits_into_fold_selects [where kfold_split = example_kfold_split
          and cfg = "scenario_config\<lparr>num_k_fold := 2, current_fold := 2\<rparr>"
          and sections = "[0, 0, 1, 1, 1, 0]" and tok = "()", OF k2 n2]
    by (simp add: scenario_config_def str_int_def str_nat.simps digit_char_def card_insert_if)
qed

text \<open>
  C10: whenever the splitter returns, both class-weight tables are the enumeration of
  the balanced weights over the sorted distinct class values of the training subset:
  their keys are exactly \<open>0, ..., C-1\<close> for \<open>C\<close> distinct classes, whatever the class
  ids are; \<open>calc_cw_tensor\<close> therefore never takes its non-contiguous-key error branch
  on them; and key \<open>i\<close> holds the weight of the \<open>i\<close>-th smallest class id, not of
  class id \<open>i\<close>.
\<close>

theorem splitter_tables_reindexed:
  assumes "splits_into_fold cfg tok kfold_split input_ids (sections, labels) = Inr out"
  shows "map fst (sections_cw out) = map int [0..<card (set (data_sections (training out)))]
       \<and> map fst (labels_cw out) = map int [0..<card (set (data_labels (training out)))]
       \<and> calc_cw_tensor (sections_cw out)
           = Inr (Tensor [card (set (data_sections (training out)))] (map snd (sections_cw out)))
       \<and> calc_cw_tensor (labels_cw out)
           = Inr (Tensor [card (set (data_labels (training out)))] (map snd (labels_cw out)))
       \<and> (\<forall>i<card (set (data_sections (training out))). map_of (sections_cw out) (int i)
           = Some (real (length (data_sections (training out)))
                  / (real (card (set (data_sections (training out))))
                     * real (count_list (data_sections (training out))
                               (np_unique (data_sections (training out)) ! i)))))
       \<and> (\<forall>i<card (set (data_labels (training out))). map_of (labels_cw out) (int i)
           = Some (real (length (data_labels (training out)))
                  / (real (card (set (data_labels (training out))))
                     * real (count_list (data_labels (training out))
                               (np_unique (data_labels (training out)) ! i)))))"
  using enumerated_table [OF splits_into_fold_tables(1) [OF assms]]
    enumerated_table [OF splits_into_fold_tables(2) [OF assms]]
  by simp

theorem splitter_tables_reindexed_witness:
  "splits_into_fold (scenario_config\<lparr>num_k_fold := 2\<rparr>) () example_kfold_split
       [''a'', ''b'', ''c'', ''d'', ''e'', ''f''] ([1, 1, 2, 1, 2, 2], [0, 1, 0, 1, 0, 1])
     = Inr \<lparr>training = Arrays [''a'', ''b'', ''c''] [1, 1, 2] [0, 1, 0],
            validation = Arrays [''d'', ''e'', ''f''] [1, 2, 2] [1, 0, 1],
            steps_per_epoch = 1,
            sections_cw = [(0, 3 / 4), (1, 3 / 2)], labels_cw = [(0, 3 / 4), (1, 3 / 2)]\<rparr>
   \<and> calc_cw_tensor [(0, 3 / 4), (1, 3 / 2)] = Inr (Tensor [2] [3 / 4, 3 / 2])
   \<and> map_of [(0::int, 3 / 4), (1, 3 / 2 :: real)] 1 = Some (3 / (2 * real (count_list [1, 1, 2] (2::int))))
   \<and> rearrange_cw (index_batch [1, 1]) (Tensor [2] [3 / 4, 3 / 2]) = Inr (Tensor [2] [3 / 2, 3 / 2])
   \<and> rearrange_cw (index_batch [1, 1, 2]) (Tensor [2] [3 / 4, 3 / 2]) = Inl InvalidArgumentError"
proof -
  let ?out = "\<lparr>training = Arrays [''a'', ''b'', ''c''] [1, 1, 2] [0, 1, 0],
            validation = Arrays [''d'', ''e'', ''f''] [1, 2, 2] [1, 0, 1],
            steps_per_epoch = 1,
            sections_cw = [(0, 3 / 4), (1, 3 / 2)], labels_cw = [(0, 3 / 4), (1, 3 / 2)]\<rparr>
            :: (unit, string) FoldedDatasetOutput"
  have e: "splits_into_fold (scenario_config\<lparr>num_k_fold := 2\<rparr>) () example_kfold_split
       [''a'', ''b'', ''c'', ''d'', ''e'', ''f''] ([1, 1, 2, 1, 2, 2], [0, 1, 0, 1, 0, 1]) = Inr ?out"
    by (simp add: splits_into_fold_def example_kfold_split_def scenario_config_def enumerate_eq_zip
      selected_fold_def np_take_def floordiv_def ceildiv_def Let_def balanced_class_weight_def
      np_unique_def dict_enumerate_def log_class_weights_def dict_get_def upt_rec)
  note t = splitter_tables_reindexed [OF e]
  have cd: "card (set (data_sections (training ?out))) = 2" by (simp add: card_insert_if)
  from t have "calc_cw_tensor (sections_cw ?out)
      = Inr (Tensor [card (set (data_sections (training ?out)))] (map snd (sections_cw ?out)))"
    by blast
  then have c: "calc_cw_tensor [(0, 3 / 4), (1, 3 / 2)] = Inr (Tensor [2] [3 / 4, 3 / 2])"
    unfolding cd by simp
  from t have "\<forall>i<card (set (data_sections (training ?out))). map_of (sections_cw ?out) (int i)
           = Some (real (length (data_sections (training ?out)))
                  / (real (card (set (data_sections (training ?out))))
                     * real (count_list (data_sections (training ?out))
                               (np_unique (data_sections (training ?out)) ! i))))"
    by blast
  then have "1 < card (set (data_sections (training ?out))) \<longrightarrow> map_of (sections_cw ?out) (int 1)
           = Some (real (length (data_sections (training ?out)))
                  / (real (card (set (data_sections (training ?out))))
                     * real (count_list (data_sections (training ?out))
                               (np_unique (data_sections (training ?out)) ! 1))))"
    by (rule spec)
  moreover have "1 < card (set (data_sections (training ?out)))"
    unfolding cd by simp
  ultimately have "map_of (sections_cw ?out) (int 1)
           = Some (real (length (data_sections (training ?out)))
                  / (real (card (set (data_sections (training ?out))))
                     * real (count_list (data_sections (training ?out))
                               (np_unique (data_sections (training ?out)) ! 1))))"
    by (rule mp)
  moreover have "np_unique [1, 1, 2] ! 1 = 2" by (simp add: np_unique_def)
  ultimately have m: "map_of [(0::int, 3 / 4), (1, 3 / 2 :: real)] 1
      = Some (3 / (2 * real (count_list [1, 1, 2] (2::int))))"
    by simp
  have r: "rearrange_cw (index_batch [1, 1]) (Tensor [2] [3 / 4, 3 / 2]) = Inr (Tensor [2] [3 / 2, 3 / 2])"
    "rearrange_cw (index_batch [1, 1, 2]) (Tensor [2] [3 / 4, 3 / 2]) = Inl InvalidArgumentError"
    by (simp_all add: rearrange_cw_def index_batch_def tf_reshape_flat_def tf_gather_def)
  from e c m r show ?thesis by blast
qed

subsection \<open>Input adapter\<close>

text \<open>
  C9 (as stated): every input tuple whose arity is neither 2 nor 3 makes the wrapper
  raise. This fails when \<open>include_sections\<close> is set: the tuple is passed through
  unchanged, whatever its arity. Here a 1-tuple is returned without error.
\<close>

theorem wrap_inputs_arity_counterexample:
  "wrap_inputs (scenario_config\<lparr>include_sections := True\<rparr>) [Leaf (0::nat)] = Inr [Leaf 0]"
  by (simp add: wrap_inputs_def scenario_config_def)

text \<open>
  C9 (amended): when \<open>include_sections\<close> is off, a tuple whose arity is neither 2
  nor 3 raises a ValueError whose message reports the received arity, a 2-tuple
  \<open>(input_ids, (_, labels))\<close> is unpacked to \<open>(input_ids, labels)\<close> and a 3-tuple
  \<open>(input_ids, (_, labels), (_, cw))\<close> to \<open>(input_ids, labels, cw)\<close>, without
  error; when \<open>include_sections\<close> is on, the tuple is returned unchanged and its
  arity is not checked.
\<close>

theorem wrap_inputs_arity:
  "(\<not> include_sections cfg \<longrightarrow>
      (length inputs \<noteq> 2 \<and> length inputs \<noteq> 3 \<longrightarrow>
         wrap_inputs cfg inputs = Inl (ValueError (''Number of inputs must be 2 or 3. Received ''
            @ str_nat (length inputs) @ '' instead'')))
    \<and> wrap_inputs cfg [input_ids, Tuple [s, labels]] = Inr [input_ids, labels]
    \<and> wrap_inputs cfg [input_ids, Tuple [s, labels], Tuple [scw, cw]] = Inr [input_ids, labels, cw])
   \<and> (include_sections cfg \<longrightarrow> wrap_inputs cfg inputs = Inr inputs)"
  by (simp add: wrap_inputs_def unpack2_def)

theorem wrap_inputs_arity_witness:
  "wrap_inputs scenario_config [Leaf (1::nat), Leaf 2, Leaf 3, Leaf 4]
     = Inl (ValueError ''Number of inputs must be 2 or 3. Received 4 instead'')
   \<and> wrap_inputs scenario_config [Leaf (1::nat), Tuple [Leaf 2, Leaf 3]] = Inr [Leaf 1, Leaf 3]
   \<and> wrap_inputs scenario_config [Leaf (1::nat), Tuple [Leaf 2, Leaf 3], Tuple [Leaf 4, Leaf 5]]
     = Inr [Leaf 1, Leaf 3, Leaf 5]
   \<and> wrap_inputs (scenario_config\<lparr>include_sections := True\<rparr>) [Leaf (1::nat), Leaf 2, Leaf 3, Leaf 4]
     = Inr [Leaf 1, Leaf 2, Leaf 3, Leaf 4]"
  using wrap_inputs_arity [of scenario_config "[Leaf (1::nat), Leaf 2, Leaf 3, Leaf 4]"
      "Leaf (1::nat)" "Leaf (2::nat)" "Leaf (3::nat)" "Leaf (4::nat)" "Leaf (5::nat)"]
    wrap_inputs_arity [of "scenario_config\<lparr>include_sections := True\<rparr>"
      "[Leaf (1::nat), Leaf 2, Leaf 3, Leaf 4]"]
  by (simp add: scenario_config_def str_nat.simps digit_char_def)

end
